theory Spec2Isabelle
  imports Main
begin

section \<open>Data model of \<open>applications.py\<close>\<close>

text \<open>
  The class \<open>FastAPI\<close> is a mutable object. Its attributes are the fields of the record
  \<open>app\<close>; every method takes the object and returns the updated one. An attribute that
  \<open>__init__\<close> has not assigned yet is \<open>None\<close> in an \<open>option\<close> field, so that reading
  it is a branch of the model (Python raises \<open>AttributeError\<close>).
\<close>

datatype error =
    AttributeError string
  | AssertionError string

text \<open>\<open>Middleware(cls, **options)\<close>: the class and its keyword options.\<close>

record middleware =
  cls :: string
  options :: "(string \<times> string) list"

text \<open>Keys of the exception handler dictionary: a status code or an exception class.\<close>

datatype handler_key = Status int | Kind string

type_synonym handler_map = "(handler_key \<times> string) list"

text \<open>
  An ASGI application built by \<open>build_middleware_stack\<close>. \<open>RouterLink\<close> is the reference
  to \<open>self.router\<close> (the router is looked up when a request is dispatched, its routes are
  not copied), \<open>Wrap m inner\<close> is \<open>m.cls(app=inner, **m.options)\<close>, and
  \<open>ServerErrorMiddleware inner dbg h\<close> is
  \<open>ServerErrorMiddleware(app=inner, debug=dbg, handler=h)\<close>.
\<close>

datatype chain =
    RouterLink
  | Wrap middleware chain
  | ServerErrorMiddleware chain bool handler_map

datatype endpoint =
    ServeOpenapi
  | SwaggerUiHtml
  | SwaggerUiOauth2RedirectHtml
  | RedocHtml
  | UserEndpoint string

record route =
  path :: string
  endpoint :: endpoint
  methods :: "string list option"
  name :: "string option"
  include_in_schema :: bool

record api_router =
  routes :: "route list"

type_synonym document = "(string \<times> string) list"

record app =
  debug :: bool
  router :: api_router
  openapi_schema :: "document option"
  openapi_version :: string
  openapi_url :: "string option"
  openapi_tags :: "string option"
  servers :: "string option"
  docs_url :: "string option"
  redoc_url :: "string option"
  swagger_ui_oauth2_redirect_url :: "string option"
  title :: string
  description :: string
  version :: string
  terms_of_service :: "string option"
  contact :: "string option"
  license_info :: "string option"
  openapi_prefix :: string
  root_path :: string
  user_middleware :: "middleware list"
  middleware_stack :: "chain option"
  exception_handlers :: "handler_map option"

section \<open>The middleware stack builder\<close>

text \<open>
  The loop \<open>for middleware in reversed(self.user_middleware): app = middleware.cls(app=app, ...)\<close>
  as a left fold over the reversed list, the accumulator being \<open>app\<close>.
\<close>

fun wrap_all :: "middleware list \<Rightarrow> chain \<Rightarrow> chain" where
  "wrap_all [] acc = acc"
| "wrap_all (m # ms) acc = wrap_all ms (Wrap m acc)"

definition build_middleware_stack :: "app \<Rightarrow> error + chain" where
  "build_middleware_stack a =
     (let inner = wrap_all (rev (user_middleware a)) RouterLink
      in case exception_handlers a of
           None \<Rightarrow> Inl (AttributeError ''exception_handlers'')
         | Some h \<Rightarrow> Inr (ServerErrorMiddleware inner (debug a) h))"

text \<open>Reading a chain: the middleware layers from the outside in, and the innermost link.\<close>

fun layers :: "chain \<Rightarrow> middleware list" where
  "layers RouterLink = []"
| "layers (Wrap m c) = m # layers c"
| "layers (ServerErrorMiddleware c d h) = layers c"

fun innermost :: "chain \<Rightarrow> chain" where
  "innermost RouterLink = RouterLink"
| "innermost (Wrap m c) = innermost c"
| "innermost (ServerErrorMiddleware c d h) = innermost c"

fun is_error_boundary :: "chain \<Rightarrow> bool" where
  "is_error_boundary (ServerErrorMiddleware c d h) = True"
| "is_error_boundary c = False"

fun wrapped :: "chain \<Rightarrow> chain option" where
  "wrapped RouterLink = None"
| "wrapped (Wrap m c) = Some c"
| "wrapped (ServerErrorMiddleware c d h) = Some c"

section \<open>Route registration and the auxiliary routes of \<open>setup\<close>\<close>

text \<open>
  Modelled from the spec: \<open>routing.APIRouter.add_route\<close> is not part of the source file;
  the spec's \<open>register(path, handler, verbs, name, includeInSchema)\<close> adds one record
  to the registry.
\<close>

definition router_add_route ::
  "string \<Rightarrow> endpoint \<Rightarrow> string list option \<Rightarrow> string option \<Rightarrow> bool \<Rightarrow> api_router \<Rightarrow> api_router"
where
  "router_add_route p e ms n vis r =
     r\<lparr>routes := routes r @
        [\<lparr>path = p, endpoint = e, methods = ms, name = n, include_in_schema = vis\<rparr>]\<rparr>"

text \<open>\<open>FastAPI.add_route\<close> forwards every argument to the router.\<close>

definition add_route ::
  "string \<Rightarrow> endpoint \<Rightarrow> string list option \<Rightarrow> string option \<Rightarrow> bool \<Rightarrow> app \<Rightarrow> app"
where
  "add_route p e ms n vis a = a\<lparr>router := router_add_route p e ms n vis (router a)\<rparr>"

text \<open>
  Truth value of an \<open>Optional[str]\<close> in a Python condition: \<open>None\<close> and the empty
  string are false. \<open>startswith\<close> is \<open>s.startswith("/")\<close>.
\<close>

fun truthy :: "string option \<Rightarrow> bool" where
  "truthy None = False"
| "truthy (Some s) = (s \<noteq> [])"

fun startswith :: "string \<Rightarrow> bool" where
  "startswith [] = False"
| "startswith (c # cs) = (c = CHR ''/'')"

text \<open>
  A method that raises leaves the object as it was at the raise: the result
  \<open>Inl (e, a)\<close> carries the error and that state, \<open>Inr a\<close> is a normal return.
\<close>

type_synonym outcome_state = "(error \<times> app) + app"

definition then_do :: "outcome_state \<Rightarrow> (app \<Rightarrow> outcome_state) \<Rightarrow> outcome_state" where
  "then_do r f = (case r of Inl x \<Rightarrow> Inl x | Inr a \<Rightarrow> f a)"

fun state_of :: "outcome_state \<Rightarrow> app" where
  "state_of (Inl (e, a)) = a"
| "state_of (Inr a) = a"

text \<open>The first \<open>if\<close> of \<open>setup\<close>: the route of the schema document.\<close>

definition setup_openapi :: "app \<Rightarrow> outcome_state" where
  "setup_openapi a =
     (case openapi_url a of
        None \<Rightarrow> Inr a
      | Some u \<Rightarrow>
          if u \<noteq> [] then
            if startswith u then Inr (add_route u ServeOpenapi None None False a)
            else Inl (AssertionError ''openapi_url should start with /'', a)
          else Inr a)"

text \<open>The inner \<open>if\<close> of the second block: the OAuth2 redirect route.\<close>

definition setup_oauth2_redirect :: "app \<Rightarrow> outcome_state" where
  "setup_oauth2_redirect a =
     (case swagger_ui_oauth2_redirect_url a of
        None \<Rightarrow> Inr a
      | Some r \<Rightarrow>
          if r \<noteq> [] then
            if startswith r
            then Inr (add_route r SwaggerUiOauth2RedirectHtml None None False a)
            else Inl (AssertionError ''swagger_ui_oauth2_redirect_url should start with /'', a)
          else Inr a)"

text \<open>The second \<open>if\<close>: the interactive documentation route.\<close>

definition setup_docs :: "app \<Rightarrow> outcome_state" where
  "setup_docs a =
     (case docs_url a of
        None \<Rightarrow> Inr a
      | Some d \<Rightarrow>
          if truthy (openapi_url a) \<and> d \<noteq> [] then
            if startswith d
            then setup_oauth2_redirect (add_route d SwaggerUiHtml None None False a)
            else Inl (AssertionError ''docs_url should start with /'', a)
          else Inr a)"

text \<open>The third \<open>if\<close>: the alternate documentation route.\<close>

definition setup_redoc :: "app \<Rightarrow> outcome_state" where
  "setup_redoc a =
     (case redoc_url a of
        None \<Rightarrow> Inr a
      | Some d \<Rightarrow>
          if truthy (openapi_url a) \<and> d \<noteq> [] then
            if startswith d then Inr (add_route d RedocHtml None None False a)
            else Inl (AssertionError ''redoc_url should start with /'', a)
          else Inr a)"

text \<open>
  The method \<open>setup\<close>, named \<open>setup_app\<close> here because \<open>setup\<close> is a keyword:
  the three blocks in sequence, a raise ending the method.
\<close>

definition setup_app :: "app \<Rightarrow> outcome_state" where
  "setup_app a = then_do (setup_openapi a) (\<lambda>a1. then_do (setup_docs a1) setup_redoc)"

text \<open>
  The routes of \<open>s\<close> are those of \<open>a\<close> followed by auxiliary routes only, each of them
  registered with \<open>include_in_schema=False\<close>.
\<close>

definition hidden_extension :: "app \<Rightarrow> app \<Rightarrow> bool" where
  "hidden_extension a s =
     (\<exists>new. routes (router s) = routes (router a) @ new
        \<and> (\<forall>r \<in> set new. \<not> include_in_schema r
              \<and> endpoint r \<in> {ServeOpenapi, SwaggerUiHtml, SwaggerUiOauth2RedirectHtml, RedocHtml}))"

section \<open>The schema cache\<close>

text \<open>
  \<open>get_openapi\<close> is imported from \<open>fastapi.openapi.utils\<close>; it is a parameter of the
  model, applied to the twelve keyword arguments of the call in the order of the source.
  A document is a dictionary; \<open>not self.openapi_schema\<close> holds for \<open>None\<close> and for the
  empty dictionary. \<open>self.routes\<close> is the route list of the router.
\<close>

type_synonym get_openapi_fn =
  "string \<Rightarrow> string \<Rightarrow> string \<Rightarrow> route list \<Rightarrow> string option \<Rightarrow> string option \<Rightarrow>
   string option \<Rightarrow> string option \<Rightarrow> string option \<Rightarrow> string \<Rightarrow> string \<Rightarrow> bool \<Rightarrow> document"

definition generate_schema :: "get_openapi_fn \<Rightarrow> app \<Rightarrow> document" where
  "generate_schema get_openapi a =
     get_openapi (title a) (version a) (description a) (routes (router a))
       (openapi_tags a) (servers a) (terms_of_service a) (contact a) (license_info a)
       (openapi_prefix a) (openapi_version a) False"

definition openapi :: "get_openapi_fn \<Rightarrow> app \<Rightarrow> document \<times> app" where
  "openapi get_openapi a =
     (case openapi_schema a of
        None \<Rightarrow>
          (let d = generate_schema get_openapi a in (d, a\<lparr>openapi_schema := Some d\<rparr>))
      | Some s \<Rightarrow>
          if s = []
          then (let d = generate_schema get_openapi a in (d, a\<lparr>openapi_schema := Some d\<rparr>))
          else (s, a))"

text \<open>
  A run of later calls of \<open>openapi\<close>, each after a change \<open>f\<close> of the application
  (a registration, say); the documents returned, in order.
\<close>

fun openapi_after :: "get_openapi_fn \<Rightarrow> (app \<Rightarrow> app) list \<Rightarrow> app \<Rightarrow> document list" where
  "openapi_after g [] a = []"
| "openapi_after g (f # fs) a =
     (case openapi g (f a) of (d, a') \<Rightarrow> d # openapi_after g fs a')"

section \<open>Adding middleware, construction, and the entry point\<close>

definition add_middleware :: "string \<Rightarrow> (string \<times> string) list \<Rightarrow> app \<Rightarrow> outcome_state" where
  "add_middleware middleware_class opts a =
     (let a1 = a\<lparr>user_middleware :=
                  \<lparr>cls = middleware_class, options = opts\<rparr> # user_middleware a\<rparr>
      in case build_middleware_stack a1 of
           Inl e \<Rightarrow> Inl (e, a1)
         | Inr c \<Rightarrow> Inr (a1\<lparr>middleware_stack := Some c\<rparr>))"

text \<open>The keyword arguments of \<open>__init__\<close> that the methods above read.\<close>

record init_args =
  arg_debug :: bool
  arg_routes :: "route list option"
  arg_title :: string
  arg_description :: string
  arg_version :: string
  arg_openapi_url :: "string option"
  arg_openapi_tags :: "string option"
  arg_servers :: "string option"
  arg_docs_url :: "string option"
  arg_redoc_url :: "string option"
  arg_swagger_ui_oauth2_redirect_url :: "string option"
  arg_middleware :: "middleware list option"
  arg_exception_handlers :: "handler_map option"
  arg_terms_of_service :: "string option"
  arg_contact :: "string option"
  arg_license_info :: "string option"
  arg_openapi_prefix :: string
  arg_root_path :: string

text \<open>The defaults of the signature.\<close>

definition default_args :: init_args where
  "default_args =
     \<lparr>arg_debug = False, arg_routes = None, arg_title = ''FastAPI'', arg_description = [],
      arg_version = ''0.1.0'', arg_openapi_url = Some ''/openapi.json'',
      arg_openapi_tags = None, arg_servers = None, arg_docs_url = Some ''/docs'',
      arg_redoc_url = Some ''/redoc'',
      arg_swagger_ui_oauth2_redirect_url = Some ''/docs/oauth2-redirect'',
      arg_middleware = None, arg_exception_handlers = None, arg_terms_of_service = None,
      arg_contact = None, arg_license_info = None, arg_openapi_prefix = [],
      arg_root_path = []\<rparr>"

text \<open>
  The object after the assignments of \<open>__init__\<close> up to \<open>self.user_middleware\<close>.
  \<open>__init__\<close> does not call the constructor of the base class, and it has assigned
  neither \<open>middleware_stack\<close> nor \<open>exception_handlers\<close> at that point. What
  \<open>self.exception_handlers\<close> evaluates to there is what the class provides:
  \<open>inherited\<close> is \<open>None\<close> when the class \<open>Starlette\<close> has no attribute of that name
  (the read raises \<open>AttributeError\<close>), and \<open>Some h\<close> when it has one with value \<open>h\<close>.
\<close>

definition init_fields :: "handler_map option \<Rightarrow> init_args \<Rightarrow> app" where
  "init_fields inherited args =
     \<lparr>debug = arg_debug args,
      router = \<lparr>routes = (case arg_routes args of None \<Rightarrow> [] | Some rs \<Rightarrow> rs)\<rparr>,
      openapi_schema = None,
      openapi_version = ''3.1.0'',
      openapi_url = arg_openapi_url args,
      openapi_tags = arg_openapi_tags args,
      servers = arg_servers args,
      docs_url = arg_docs_url args,
      redoc_url = arg_redoc_url args,
      swagger_ui_oauth2_redirect_url = arg_swagger_ui_oauth2_redirect_url args,
      title = arg_title args,
      description = arg_description args,
      version = arg_version args,
      terms_of_service = arg_terms_of_service args,
      contact = arg_contact args,
      license_info = arg_license_info args,
      openapi_prefix = arg_openapi_prefix args,
      root_path = arg_root_path args,
      user_middleware = (case arg_middleware args of None \<Rightarrow> [] | Some ms \<Rightarrow> ms),
      middleware_stack = None,
      exception_handlers = inherited\<rparr>"

text \<open>
  The last three statements of \<open>__init__\<close>, in the order of the source: build the
  stack, assign \<open>exception_handlers\<close> (\<open>exception_handlers or {}\<close>), run \<open>setup\<close>.
  A raise leaves no object behind.
\<close>

definition init :: "handler_map option \<Rightarrow> init_args \<Rightarrow> error + app" where
  "init inherited args =
     (let a0 = init_fields inherited args
      in case build_middleware_stack a0 of
           Inl e \<Rightarrow> Inl e
         | Inr c \<Rightarrow>
             (let a1 = a0\<lparr>middleware_stack := Some c\<rparr>;
                  a2 = a1\<lparr>exception_handlers :=
                          Some (case arg_exception_handlers args of
                                  None \<Rightarrow> [] | Some h \<Rightarrow> h)\<rparr>
              in case setup_app a2 of
                   Inl (e, s) \<Rightarrow> Inl e
                 | Inr a3 \<Rightarrow> Inr a3))"

text \<open>
  \<open>__call__\<close>: the scope is a dictionary; \<open>asgi\<close> is the invocation
  \<open>self.middleware_stack(scope, receive, send)\<close> of the built chain.
\<close>

type_synonym scope = "string \<rightharpoonup> string"

definition call :: "(chain \<Rightarrow> scope \<Rightarrow> 'r) \<Rightarrow> app \<Rightarrow> scope \<Rightarrow> error + 'r" where
  "call asgi a scope =
     (let scope' = scope(''root_path'' \<mapsto> root_path a)
      in case middleware_stack a of
           None \<Rightarrow> Inl (AttributeError ''middleware_stack'')
         | Some c \<Rightarrow> Inr (asgi c scope'))"

section \<open>Running a chain\<close>

text \<open>
  A failure carries its kind followed by the kinds that generalise it, nearest first.
\<close>

record failure =
  kinds :: "string list"
  detail :: string

datatype response = Response int string

datatype outcome = Responded response | Raised failure

text \<open>
  What the router, a middleware class and an exception handler do with a request is
  outside the source file: \<open>env\<close> supplies them. A link returns its outcome and the
  failures it reported to the host.
\<close>

type_synonym behaviour = "scope \<Rightarrow> outcome \<times> failure list"

record env =
  dispatch :: "scope \<Rightarrow> outcome"
  middleware_call :: "middleware \<Rightarrow> behaviour \<Rightarrow> behaviour"
  handler_call :: "string \<Rightarrow> scope \<Rightarrow> failure \<Rightarrow> response"

text \<open>
  Modelled from the spec: the lookup rule of the Exception Handler Map, which the source
  file leaves to the error boundary: the exact kind, then each ancestor kind in order,
  then the catch-all kind; the first match wins.
\<close>

fun find_handler :: "handler_map \<Rightarrow> string list \<Rightarrow> string option" where
  "find_handler hm [] = None"
| "find_handler hm (k # ks) =
     (case map_of hm (Kind k) of Some h \<Rightarrow> Some h | None \<Rightarrow> find_handler hm ks)"

definition lookup_handler :: "handler_map \<Rightarrow> failure \<Rightarrow> string option" where
  "lookup_handler hm f = find_handler hm (kinds f @ [''Exception''])"

definition generic_error_response :: response where
  "generic_error_response = Response 500 ''Internal Server Error''"

definition diagnostic_response :: "failure \<Rightarrow> response" where
  "diagnostic_response f = Response 500 (detail f)"

text \<open>
  Modelled from the spec: the class \<open>ServerErrorMiddleware\<close> is imported from
  \<open>starlette.middleware.errors\<close> and is not part of the source file. The spec's error
  boundary catches a failure raised by the inner chain; it answers with the matching
  handler of the map if there is one; otherwise the failure is reported to the host and
  the answer is a diagnostic response when \<open>debug\<close> is set and a generic
  internal-error response when it is not.
\<close>

definition server_error :: "env \<Rightarrow> bool \<Rightarrow> handler_map \<Rightarrow> behaviour \<Rightarrow> behaviour" where
  "server_error e dbg hm inner s =
     (case inner s of
        (Responded r, reported) \<Rightarrow> (Responded r, reported)
      | (Raised f, reported) \<Rightarrow>
          (case lookup_handler hm f of
             Some h \<Rightarrow> (Responded (handler_call e h s f), reported)
           | None \<Rightarrow>
               (Responded (if dbg then diagnostic_response f else generic_error_response),
                reported @ [f])))"

primrec run :: "env \<Rightarrow> chain \<Rightarrow> behaviour" where
  "run e RouterLink = (\<lambda>s. (dispatch e s, []))"
| "run e (Wrap m c) = middleware_call e m (run e c)"
| "run e (ServerErrorMiddleware c dbg hm) = server_error e dbg hm (run e c)"

text \<open>A configured, non-empty path that does not begin with the separator.\<close>

fun bad_path :: "string option \<Rightarrow> bool" where
  "bad_path None = False"
| "bad_path (Some s) = (s \<noteq> [] \<and> \<not> startswith s)"

section \<open>Properties of the builder\<close>

lemma wrap_all_rev: "wrap_all (rev ms) acc = foldr Wrap ms acc"
proof (induction ms arbitrary: acc rule: rev_induct)
  case Nil
  show ?case by simp
next
  case (snoc m ms)
  have "wrap_all (rev (ms @ [m])) acc = wrap_all (rev ms) (Wrap m acc)"
    by simp
  also have "\<dots> = foldr Wrap ms (Wrap m acc)"
    by (rule snoc.IH)
  finally show ?case by simp
qed

lemma layers_foldr_Wrap: "layers (foldr Wrap ms c) = ms @ layers c"
  by (induction ms) simp_all

lemma innermost_foldr_Wrap: "innermost (foldr Wrap ms c) = innermost c"
  by (induction ms) simp_all

lemma build_middleware_stack_eq:
  "exception_handlers a = Some h \<Longrightarrow>
   build_middleware_stack a =
     Inr (ServerErrorMiddleware (foldr Wrap (user_middleware a) RouterLink) (debug a) h)"
  by (simp add: build_middleware_stack_def wrap_all_rev)

text \<open>
  C1. Whatever the middleware sequence, once the handler map is assigned the builder
  returns a chain whose outermost layer is the error boundary, directly under it the
  middleware in the order of the sequence (the front of the sequence outermost, so each
  one wraps those behind it), and innermost the router.
\<close>

theorem build_middleware_stack_shape:
  assumes "exception_handlers a = Some h"
  shows "\<exists>c. build_middleware_stack a = Inr c
           \<and> is_error_boundary c
           \<and> wrapped c = Some (foldr Wrap (user_middleware a) RouterLink)
           \<and> layers c = user_middleware a
           \<and> innermost c = RouterLink"
  using assms
  by (simp add: build_middleware_stack_eq layers_foldr_Wrap innermost_foldr_Wrap)

theorem build_middleware_stack_shape_witness:
  "exception_handlers
     (init_fields (Some [])
        (default_args\<lparr>arg_middleware :=
           Some [\<lparr>cls = ''GZip'', options = []\<rparr>, \<lparr>cls = ''CORS'', options = []\<rparr>]\<rparr>)) = Some []
   \<and> (\<exists>c. build_middleware_stack
         (init_fields (Some [])
            (default_args\<lparr>arg_middleware :=
               Some [\<lparr>cls = ''GZip'', options = []\<rparr>, \<lparr>cls = ''CORS'', options = []\<rparr>]\<rparr>)) = Inr c
        \<and> is_error_boundary c
        \<and> wrapped c = Some (Wrap \<lparr>cls = ''GZip'', options = []\<rparr>
                              (Wrap \<lparr>cls = ''CORS'', options = []\<rparr> RouterLink))
        \<and> layers c = [\<lparr>cls = ''GZip'', options = []\<rparr>, \<lparr>cls = ''CORS'', options = []\<rparr>]
        \<and> innermost c = RouterLink)"
  using build_middleware_stack_shape
    [of "init_fields (Some [])
           (default_args\<lparr>arg_middleware :=
              Some [\<lparr>cls = ''GZip'', options = []\<rparr>, \<lparr>cls = ''CORS'', options = []\<rparr>]\<rparr>)" "[]"]
  by (simp add: init_fields_def default_args_def)

section \<open>Construction\<close>

text \<open>
  C2. \<open>__init__\<close> builds the stack one statement before it assigns
  \<open>self.exception_handlers\<close>. Constructed with a handler for status 404, the
  application has no object when the class provides no such attribute (the read raises),
  and when the class provides an empty one the error boundary of the initial chain holds
  that empty map while the application's Exception Handler Map holds the 404 handler.
\<close>

theorem init_builds_before_handlers_assigned:
  "init None (default_args\<lparr>arg_exception_handlers := Some [(Status 404, ''not_found'')]\<rparr>)
     = Inl (AttributeError ''exception_handlers'')
   \<and> map_sum id exception_handlers
        (init (Some []) (default_args\<lparr>arg_exception_handlers := Some [(Status 404, ''not_found'')]\<rparr>))
     = Inr (Some [(Status 404, ''not_found'')])
   \<and> map_sum id middleware_stack
        (init (Some []) (default_args\<lparr>arg_exception_handlers := Some [(Status 404, ''not_found'')]\<rparr>))
     = Inr (Some (ServerErrorMiddleware RouterLink False []))"
  by (simp add: init_def init_fields_def default_args_def build_middleware_stack_def
      setup_app_def then_do_def setup_openapi_def setup_docs_def setup_redoc_def
      setup_oauth2_redirect_def add_route_def router_add_route_def)

section \<open>The schema cache\<close>

lemma openapi_populated:
  "openapi_schema a = Some d \<Longrightarrow> d \<noteq> [] \<Longrightarrow> openapi g a = (d, a)"
  by (simp add: openapi_def)

lemma openapi_populates:
  "openapi g a = (d, a1) \<Longrightarrow> generate_schema g a \<noteq> [] \<Longrightarrow> openapi_schema a1 = Some d \<and> d \<noteq> []"
  by (auto simp: openapi_def Let_def split: option.splits if_splits)

lemma add_route_openapi_schema:
  "openapi_schema (add_route p e ms n vis a) = openapi_schema a"
  by (simp add: add_route_def)

text \<open>
  C3. Once a call of \<open>openapi\<close> has returned a (non-empty) document, every later call
  returns that same document, whatever changes \<open>fs\<close> were made to the application in
  between, as long as none of them assigns \<open>openapi_schema\<close>; registering a route
  is such a change.
\<close>

theorem openapi_memoized:
  assumes first: "openapi g a = (doc, a1)"
    and nonempty: "doc \<noteq> []"
    and kept: "\<forall>f \<in> set fs. \<forall>s. openapi_schema (f s) = openapi_schema s"
  shows "openapi_after g fs a1 = replicate (length fs) doc
         \<and> openapi g (add_route p e ms n vis a1) = (doc, add_route p e ms n vis a1)"
proof -
  from first nonempty have pop: "openapi_schema a1 = Some doc"
    by (auto simp: openapi_def Let_def split: option.splits if_splits)
  have "openapi_schema s = Some doc \<Longrightarrow> openapi_after g fs s = replicate (length fs) doc" for s
    using kept
  proof (induction fs arbitrary: s)
    case Nil
    show ?case by simp
  next
    case (Cons f fs)
    from Cons.prems have "openapi_schema (f s) = Some doc"
      by simp
    then have "openapi g (f s) = (doc, f s)"
      using nonempty by (rule openapi_populated)
    moreover have "openapi_after g fs (f s) = replicate (length fs) doc"
      using Cons.IH [of "f s"] Cons.prems \<open>openapi_schema (f s) = Some doc\<close> by simp
    ultimately show ?case by simp
  qed
  with pop have "openapi_after g fs a1 = replicate (length fs) doc"
    by simp
  moreover from pop nonempty
  have "openapi g (add_route p e ms n vis a1) = (doc, add_route p e ms n vis a1)"
    by (simp add: openapi_populated add_route_openapi_schema)
  ultimately show ?thesis by simp
qed

theorem openapi_memoized_witness:
  "openapi (\<lambda>t v d rs tg sv ts c l p ov b. [(''title'', t), (''paths'', concat (map path rs))])
      (init_fields (Some []) default_args)
     = ([(''title'', ''FastAPI''), (''paths'', [])],
        (init_fields (Some []) default_args)
          \<lparr>openapi_schema := Some [(''title'', ''FastAPI''), (''paths'', [])]\<rparr>)
   \<and> openapi_after
        (\<lambda>t v d rs tg sv ts c l p ov b. [(''title'', t), (''paths'', concat (map path rs))])
        [add_route ''/items'' (UserEndpoint ''items'') None None True, id]
        ((init_fields (Some []) default_args)
          \<lparr>openapi_schema := Some [(''title'', ''FastAPI''), (''paths'', [])]\<rparr>)
     = [[(''title'', ''FastAPI''), (''paths'', [])], [(''title'', ''FastAPI''), (''paths'', [])]]"
proof -
  let ?g = "\<lambda>t v d rs tg sv ts c l p ov b. [(''title'', t), (''paths'', concat (map path rs))]"
  let ?a = "init_fields (Some []) default_args"
  let ?doc = "[(''title'', ''FastAPI''), (''paths'', [])]"
  let ?fs = "[add_route ''/items'' (UserEndpoint ''items'') None None True, id]"
  have first: "openapi ?g ?a = (?doc, ?a\<lparr>openapi_schema := Some ?doc\<rparr>)"
    by (simp add: openapi_def generate_schema_def init_fields_def default_args_def Let_def)
  have nonempty: "?doc \<noteq> []"
    by simp
  have kept: "\<forall>f \<in> set ?fs. \<forall>s. openapi_schema (f s) = openapi_schema s"
    by (simp add: add_route_def)
  from openapi_memoized [OF first nonempty kept] first show ?thesis
    by simp
qed

section \<open>Adding middleware\<close>

lemma add_middleware_eq:
  "exception_handlers a = Some h \<Longrightarrow>
   add_middleware c opts a =
     Inr (a\<lparr>user_middleware := \<lparr>cls = c, options = opts\<rparr> # user_middleware a,
            middleware_stack :=
              Some (ServerErrorMiddleware
                      (foldr Wrap (\<lparr>cls = c, options = opts\<rparr> # user_middleware a) RouterLink)
                      (debug a) h)\<rparr>)"
  by (simp add: add_middleware_def build_middleware_stack_eq)

lemma then_do_Inr: "then_do (Inr a) f = f a"
  by (simp add: then_do_def)

text \<open>
  C4. Adding \<open>M1\<close> and then \<open>M2\<close> to a constructed application puts \<open>M2\<close> and then
  \<open>M1\<close> at the front of the sequence and rebuilds the chain at each call. In the chain
  that the entry point then forwards every request to, \<open>M2\<close> is the layer directly under
  the error boundary and \<open>M1\<close> is the application \<open>M2\<close> was given to call: a request
  reaches \<open>M2\<close> first, and \<open>M1\<close> only through it.
\<close>

theorem add_middleware_outermost:
  assumes "exception_handlers a = Some h"
  shows "let m1 = \<lparr>cls = c1, options = o1\<rparr>; m2 = \<lparr>cls = c2, options = o2\<rparr>;
             c = ServerErrorMiddleware
                   (Wrap m2 (Wrap m1 (foldr Wrap (user_middleware a) RouterLink))) (debug a) h;
             a2 = a\<lparr>user_middleware := m2 # m1 # user_middleware a, middleware_stack := Some c\<rparr>
         in then_do (add_middleware c1 o1 a) (add_middleware c2 o2) = Inr a2
          \<and> build_middleware_stack a2 = Inr c
          \<and> layers c = m2 # m1 # user_middleware a
          \<and> call asgi a2 scope = Inr (asgi c (scope(''root_path'' \<mapsto> root_path a)))"
  using assms
  by (simp add: Let_def add_middleware_eq then_do_Inr build_middleware_stack_eq
      layers_foldr_Wrap call_def)

theorem add_middleware_outermost_witness:
  "exception_handlers (init_fields (Some []) default_args) = Some []
   \<and> then_do (add_middleware ''M1'' [] (init_fields (Some []) default_args))
        (add_middleware ''M2'' [])
      = Inr ((init_fields (Some []) default_args)
              \<lparr>user_middleware := [\<lparr>cls = ''M2'', options = []\<rparr>, \<lparr>cls = ''M1'', options = []\<rparr>],
               middleware_stack :=
                 Some (ServerErrorMiddleware
                         (Wrap \<lparr>cls = ''M2'', options = []\<rparr>
                           (Wrap \<lparr>cls = ''M1'', options = []\<rparr> RouterLink)) False [])\<rparr>)
   \<and> layers (ServerErrorMiddleware
                (Wrap \<lparr>cls = ''M2'', options = []\<rparr>
                  (Wrap \<lparr>cls = ''M1'', options = []\<rparr> RouterLink)) False [])
      = [\<lparr>cls = ''M2'', options = []\<rparr>, \<lparr>cls = ''M1'', options = []\<rparr>]"
  using add_middleware_outermost
    [of "init_fields (Some []) default_args" "[]" "''M1''" "[]" "''M2''" "[]"
        "\<lambda>c s. c" Map.empty]
  by (simp add: Let_def init_fields_def default_args_def)

text \<open>
  C10. Whether the rebuild succeeds or raises, \<open>add_middleware\<close> leaves the object
  equal to the one before the call except for \<open>user_middleware\<close> and
  \<open>middleware_stack\<close>: the router and its routes, the handler map, the cached schema,
  the debug flag, the root path and the metadata are the same.
\<close>

theorem add_middleware_frame:
  "state_of (add_middleware c opts a) =
     a\<lparr>user_middleware := \<lparr>cls = c, options = opts\<rparr> # user_middleware a,
       middleware_stack :=
         (case build_middleware_stack
                 (a\<lparr>user_middleware := \<lparr>cls = c, options = opts\<rparr> # user_middleware a\<rparr>) of
            Inl e \<Rightarrow> middleware_stack a
          | Inr s \<Rightarrow> Some s)\<rparr>
   \<and> router (state_of (add_middleware c opts a)) = router a
   \<and> exception_handlers (state_of (add_middleware c opts a)) = exception_handlers a
   \<and> openapi_schema (state_of (add_middleware c opts a)) = openapi_schema a
   \<and> debug (state_of (add_middleware c opts a)) = debug a
   \<and> root_path (state_of (add_middleware c opts a)) = root_path a
   \<and> title (state_of (add_middleware c opts a)) = title a
   \<and> version (state_of (add_middleware c opts a)) = version a
   \<and> description (state_of (add_middleware c opts a)) = description a"
  by (cases "build_middleware_stack
                 (a\<lparr>user_middleware := \<lparr>cls = c, options = opts\<rparr> # user_middleware a\<rparr>)")
     (simp_all add: add_middleware_def)

section \<open>The entry point\<close>

text \<open>
  C5. \<open>__call__\<close> hands the built chain the scope with \<open>root_path\<close> set to the
  application's configured root path, whatever the scope held under that key before.
\<close>

theorem call_stamps_root_path:
  assumes "middleware_stack a = Some c"
  shows "call asgi a scope = Inr (asgi c (scope(''root_path'' \<mapsto> root_path a)))
         \<and> (scope(''root_path'' \<mapsto> root_path a)) ''root_path'' = Some (root_path a)"
  using assms by (simp add: call_def)

theorem call_stamps_root_path_witness:
  "middleware_stack
     ((init_fields (Some []) (default_args\<lparr>arg_root_path := ''/api''\<rparr>))
        \<lparr>middleware_stack := Some (ServerErrorMiddleware RouterLink False [])\<rparr>)
     = Some (ServerErrorMiddleware RouterLink False [])
   \<and> call (\<lambda>c s. s ''root_path'')
       ((init_fields (Some []) (default_args\<lparr>arg_root_path := ''/api''\<rparr>))
          \<lparr>middleware_stack := Some (ServerErrorMiddleware RouterLink False [])\<rparr>)
       [''root_path'' \<mapsto> ''/proxy'']
     = Inr (Some ''/api'')"
  using call_stamps_root_path
    [of "(init_fields (Some []) (default_args\<lparr>arg_root_path := ''/api''\<rparr>))
          \<lparr>middleware_stack := Some (ServerErrorMiddleware RouterLink False [])\<rparr>"
        "ServerErrorMiddleware RouterLink False []"
        "\<lambda>c s. s ''root_path''" "[''root_path'' \<mapsto> ''/proxy'']"]
  by (auto simp: init_fields_def default_args_def)

section \<open>The auxiliary routes\<close>

lemma add_route_routes:
  "routes (router (add_route p e ms n vis a)) =
     routes (router a) @ [\<lparr>path = p, endpoint = e, methods = ms, name = n, include_in_schema = vis\<rparr>]"
  by (simp add: add_route_def router_add_route_def)

lemma then_do_Inl: "then_do (Inl x) f = Inl x"
  by (simp add: then_do_def)

lemma add_route_urls:
  "openapi_url (add_route p e ms n vis a) = openapi_url a"
  "docs_url (add_route p e ms n vis a) = docs_url a"
  "redoc_url (add_route p e ms n vis a) = redoc_url a"
  "swagger_ui_oauth2_redirect_url (add_route p e ms n vis a) = swagger_ui_oauth2_redirect_url a"
  by (simp_all add: add_route_def)

lemma setup_openapi_urls:
  "openapi_url (state_of (setup_openapi a)) = openapi_url a"
  "docs_url (state_of (setup_openapi a)) = docs_url a"
  "redoc_url (state_of (setup_openapi a)) = redoc_url a"
  "swagger_ui_oauth2_redirect_url (state_of (setup_openapi a)) = swagger_ui_oauth2_redirect_url a"
  by (simp_all add: setup_openapi_def add_route_urls split: option.splits)

lemma setup_docs_urls:
  "openapi_url (state_of (setup_docs a)) = openapi_url a"
  "redoc_url (state_of (setup_docs a)) = redoc_url a"
  by (simp_all add: setup_docs_def setup_oauth2_redirect_def add_route_urls split: option.splits)

lemma setup_openapi_rejects:
  "bad_path (openapi_url a) \<Longrightarrow>
   setup_openapi a = Inl (AssertionError ''openapi_url should start with /'', a)"
  by (cases "openapi_url a") (simp_all add: setup_openapi_def)

lemma setup_oauth2_redirect_rejects:
  "bad_path (swagger_ui_oauth2_redirect_url a) \<Longrightarrow>
   setup_oauth2_redirect a =
     Inl (AssertionError ''swagger_ui_oauth2_redirect_url should start with /'', a)"
  by (cases "swagger_ui_oauth2_redirect_url a") (simp_all add: setup_oauth2_redirect_def)

lemma setup_docs_rejects:
  assumes "truthy (openapi_url a)"
    and "bad_path (docs_url a) \<or> (truthy (docs_url a) \<and> bad_path (swagger_ui_oauth2_redirect_url a))"
  shows "\<exists>msg s. setup_docs a = Inl (AssertionError msg, s)"
proof (cases "docs_url a")
  case None
  with assms show ?thesis by simp
next
  case (Some d)
  show ?thesis
  proof (cases "startswith d")
    case False
    with Some assms show ?thesis
      by (auto simp: setup_docs_def)
  next
    case True
    with Some assms have bad: "bad_path (swagger_ui_oauth2_redirect_url a)" and "d \<noteq> []"
      by auto
    let ?a1 = "add_route d SwaggerUiHtml None None False a"
    from bad have "bad_path (swagger_ui_oauth2_redirect_url ?a1)"
      by (simp add: add_route_urls)
    then have "setup_oauth2_redirect ?a1 =
        Inl (AssertionError ''swagger_ui_oauth2_redirect_url should start with /'', ?a1)"
      by (rule setup_oauth2_redirect_rejects)
    with Some True \<open>d \<noteq> []\<close> assms(1) show ?thesis
      by (simp add: setup_docs_def)
  qed
qed

lemma setup_redoc_rejects:
  assumes "truthy (openapi_url a)" and "bad_path (redoc_url a)"
  shows "setup_redoc a = Inl (AssertionError ''redoc_url should start with /'', a)"
  using assms by (cases "redoc_url a") (simp_all add: setup_redoc_def)

lemma setup_app_rejects:
  assumes t: "truthy (openapi_url a)"
    and bad: "bad_path (openapi_url a) \<or> bad_path (docs_url a) \<or> bad_path (redoc_url a)
        \<or> (truthy (docs_url a) \<and> bad_path (swagger_ui_oauth2_redirect_url a))"
  shows "\<exists>msg s. setup_app a = Inl (AssertionError msg, s)"
proof (cases "setup_openapi a")
  case (Inl x)
  then show ?thesis
    by (cases "openapi_url a")
       (auto simp: setup_app_def then_do_Inl setup_openapi_def split: if_splits)
next
  case (Inr a1)
  then have a1: "state_of (setup_openapi a) = a1" by simp
  have urls1: "openapi_url a1 = openapi_url a" "docs_url a1 = docs_url a"
    "redoc_url a1 = redoc_url a"
    "swagger_ui_oauth2_redirect_url a1 = swagger_ui_oauth2_redirect_url a"
    using setup_openapi_urls [of a] a1 by simp_all
  from Inr have ok: "\<not> bad_path (openapi_url a)"
    using setup_openapi_rejects [of a] by auto
  show ?thesis
  proof (cases "setup_docs a1")
    case (Inl y)
    from Inl obtain e s where y: "y = (e, s)" by (cases y)
    have "\<exists>msg. e = AssertionError msg"
      using Inl y
      by (auto simp: setup_docs_def setup_oauth2_redirect_def split: option.splits if_splits)
    with Inl y Inr show ?thesis
      by (auto simp: setup_app_def then_do_Inr then_do_Inl)
  next
    case (Inr a2)
    then have a2: "state_of (setup_docs a1) = a2" by simp
    have urls2: "openapi_url a2 = openapi_url a" "redoc_url a2 = redoc_url a"
      using setup_docs_urls [of a1] a2 urls1 by simp_all
    have nodocs: "\<not> (bad_path (docs_url a) \<or>
        (truthy (docs_url a) \<and> bad_path (swagger_ui_oauth2_redirect_url a)))"
      using setup_docs_rejects [of a1] Inr t urls1 by auto
    with bad ok have "bad_path (redoc_url a2)"
      using urls2 by auto
    moreover have "truthy (openapi_url a2)"
      using t urls2 by simp
    ultimately have "setup_redoc a2 = Inl (AssertionError ''redoc_url should start with /'', a2)"
      by (rule setup_redoc_rejects [rotated])
    with Inr \<open>setup_openapi a = Inr a1\<close> show ?thesis
      by (simp add: setup_app_def then_do_Inr)
  qed
qed

lemma init_fields_urls:
  "openapi_url (init_fields i args) = arg_openapi_url args"
  "docs_url (init_fields i args) = arg_docs_url args"
  "redoc_url (init_fields i args) = arg_redoc_url args"
  "swagger_ui_oauth2_redirect_url (init_fields i args) = arg_swagger_ui_oauth2_redirect_url args"
  by (simp_all add: init_fields_def)

text \<open>
  C6, as stated, fails: with \<open>openapi_url=None\<close> and \<open>docs_url="docs"\<close> no check is made,
  \<open>setup\<close> returns normally and the application is constructed with that path.
\<close>

theorem setup_skips_checks_without_openapi_url:
  "bad_path (docs_url (init_fields (Some [])
       (default_args\<lparr>arg_openapi_url := None, arg_docs_url := Some ''docs''\<rparr>)))
   \<and> setup_app (init_fields (Some [])
       (default_args\<lparr>arg_openapi_url := None, arg_docs_url := Some ''docs''\<rparr>))
     = Inr (init_fields (Some [])
       (default_args\<lparr>arg_openapi_url := None, arg_docs_url := Some ''docs''\<rparr>))
   \<and> map_sum id docs_url
        (init (Some []) (default_args\<lparr>arg_openapi_url := None, arg_docs_url := Some ''docs''\<rparr>))
     = Inr (Some ''docs'')"
  by (simp add: init_def init_fields_def default_args_def build_middleware_stack_def
      setup_app_def then_do_def setup_openapi_def setup_docs_def setup_redoc_def)

lemma init_rejects_bad_path:
  assumes t: "truthy (arg_openapi_url args)"
    and bad: "bad_path (arg_openapi_url args) \<or> bad_path (arg_docs_url args)
        \<or> bad_path (arg_redoc_url args)
        \<or> (truthy (arg_docs_url args) \<and> bad_path (arg_swagger_ui_oauth2_redirect_url args))"
  shows "\<exists>msg. init (Some h) args = Inl (AssertionError msg)"
proof -
  let ?a0 = "init_fields (Some h) args"
  let ?c = "ServerErrorMiddleware (foldr Wrap (user_middleware ?a0) RouterLink) (debug ?a0) h"
  let ?a2 = "?a0\<lparr>middleware_stack := Some ?c,
      exception_handlers := Some (case arg_exception_handlers args of None \<Rightarrow> [] | Some h \<Rightarrow> h)\<rparr>"
  have build: "build_middleware_stack ?a0 = Inr ?c"
    by (rule build_middleware_stack_eq) (simp add: init_fields_def)
  have "truthy (openapi_url ?a2)"
    using t by (simp add: init_fields_urls)
  moreover have "bad_path (openapi_url ?a2) \<or> bad_path (docs_url ?a2) \<or> bad_path (redoc_url ?a2)
        \<or> (truthy (docs_url ?a2) \<and> bad_path (swagger_ui_oauth2_redirect_url ?a2))"
    using bad by (simp add: init_fields_urls)
  ultimately obtain msg s where "setup_app ?a2 = Inl (AssertionError msg, s)"
    using setup_app_rejects by blast
  with build show ?thesis
    by (auto simp: init_def Let_def)
qed

lemma setup_app_skips:
  assumes "\<not> truthy (openapi_url a)"
  shows "setup_app a = Inr a"
proof -
  from assms have "setup_openapi a = Inr a"
    by (cases "openapi_url a") (simp_all add: setup_openapi_def)
  moreover from assms have "setup_docs a = Inr a"
    by (cases "docs_url a") (simp_all add: setup_docs_def)
  moreover from assms have "setup_redoc a = Inr a"
    by (cases "redoc_url a") (simp_all add: setup_redoc_def)
  ultimately show ?thesis
    by (simp add: setup_app_def then_do_Inr)
qed

text \<open>
  C6, amended. When \<open>openapi_url\<close> is configured and non-empty, \<open>setup\<close> raises an
  assertion error as soon as one of these does not begin with \<open>/\<close>: \<open>openapi_url\<close>
  itself, a non-empty \<open>docs_url\<close>, a non-empty \<open>redoc_url\<close>, or, \<open>docs_url\<close> being
  non-empty, a non-empty \<open>swagger_ui_oauth2_redirect_url\<close>. When \<open>openapi_url\<close> is
  \<open>None\<close> or empty, \<open>setup\<close> checks none of these paths and returns normally. A
  construction that reaches \<open>setup\<close> with such a path and a non-empty \<open>openapi_url\<close>
  ends in that assertion error, and no application is returned.
\<close>

theorem setup_separator_checks:
  "(truthy (openapi_url a)
      \<and> (bad_path (openapi_url a) \<or> bad_path (docs_url a) \<or> bad_path (redoc_url a)
           \<or> (truthy (docs_url a) \<and> bad_path (swagger_ui_oauth2_redirect_url a)))
      \<longrightarrow> (\<exists>msg s. setup_app a = Inl (AssertionError msg, s)))
   \<and> (\<not> truthy (openapi_url a) \<longrightarrow> setup_app a = Inr a)
   \<and> (truthy (arg_openapi_url args)
      \<and> (bad_path (arg_openapi_url args) \<or> bad_path (arg_docs_url args)
           \<or> bad_path (arg_redoc_url args)
           \<or> (truthy (arg_docs_url args) \<and> bad_path (arg_swagger_ui_oauth2_redirect_url args)))
      \<longrightarrow> (\<exists>msg. init (Some h) args = Inl (AssertionError msg)))"
proof (intro conjI impI)
  assume "truthy (openapi_url a)
      \<and> (bad_path (openapi_url a) \<or> bad_path (docs_url a) \<or> bad_path (redoc_url a)
           \<or> (truthy (docs_url a) \<and> bad_path (swagger_ui_oauth2_redirect_url a)))"
  then show "\<exists>msg s. setup_app a = Inl (AssertionError msg, s)"
    using setup_app_rejects [of a] by blast
next
  assume "\<not> truthy (openapi_url a)"
  then show "setup_app a = Inr a"
    by (rule setup_app_skips)
next
  assume "truthy (arg_openapi_url args)
      \<and> (bad_path (arg_openapi_url args) \<or> bad_path (arg_docs_url args)
           \<or> bad_path (arg_redoc_url args)
           \<or> (truthy (arg_docs_url args) \<and> bad_path (arg_swagger_ui_oauth2_redirect_url args)))"
  then show "\<exists>msg. init (Some h) args = Inl (AssertionError msg)"
    using init_rejects_bad_path [of args h] by blast
qed

theorem setup_separator_checks_witness:
  "truthy (openapi_url (init_fields None (default_args\<lparr>arg_docs_url := Some ''docs''\<rparr>)))
   \<and> bad_path (docs_url (init_fields None (default_args\<lparr>arg_docs_url := Some ''docs''\<rparr>)))
   \<and> map_sum fst id
        (setup_app (init_fields None (default_args\<lparr>arg_docs_url := Some ''docs''\<rparr>)))
       = Inl (AssertionError ''docs_url should start with /'')
   \<and> \<not> truthy (openapi_url (init_fields None
         (default_args\<lparr>arg_openapi_url := Some [], arg_docs_url := Some ''docs''\<rparr>)))
   \<and> bad_path (docs_url (init_fields None
         (default_args\<lparr>arg_openapi_url := Some [], arg_docs_url := Some ''docs''\<rparr>)))
   \<and> setup_app (init_fields None
         (default_args\<lparr>arg_openapi_url := Some [], arg_docs_url := Some ''docs''\<rparr>))
       = Inr (init_fields None
         (default_args\<lparr>arg_openapi_url := Some [], arg_docs_url := Some ''docs''\<rparr>))
   \<and> init (Some []) (default_args\<lparr>arg_docs_url := Some ''docs''\<rparr>)
       = Inl (AssertionError ''docs_url should start with /'')"
proof -
  let ?args = "default_args\<lparr>arg_docs_url := Some ''docs''\<rparr>"
  let ?a1 = "init_fields None ?args"
  let ?a2 = "init_fields None (default_args\<lparr>arg_openapi_url := Some [], arg_docs_url := Some ''docs''\<rparr>)"
  note defs = init_fields_def default_args_def
  have t1: "truthy (openapi_url ?a1)" and b1: "bad_path (docs_url ?a1)"
    by (simp_all add: defs)
  have t2: "\<not> truthy (openapi_url ?a2)" and b2: "bad_path (docs_url ?a2)"
    by (simp_all add: defs)
  have targs: "truthy (arg_openapi_url ?args)" and bargs: "bad_path (arg_docs_url ?args)"
    by (simp_all add: defs)
  from setup_separator_checks [of ?a1 ?args "[]"] t1 b1 targs bargs
  obtain msg s msg' where raised: "setup_app ?a1 = Inl (AssertionError msg, s)"
    and failed: "init (Some []) ?args = Inl (AssertionError msg')"
    by blast
  have "setup_app ?a1 \<noteq> Inl (AssertionError msg, s) \<or> msg = ''docs_url should start with /''"
    by (simp add: defs setup_app_def then_do_def setup_openapi_def setup_docs_def add_route_def
        router_add_route_def)
  with raised have first: "map_sum fst id (setup_app ?a1)
      = Inl (AssertionError ''docs_url should start with /'')"
    by simp
  have "init (Some []) ?args \<noteq> Inl (AssertionError msg')
      \<or> msg' = ''docs_url should start with /''"
    by (simp add: init_def defs build_middleware_stack_def setup_app_def then_do_def
        setup_openapi_def setup_docs_def add_route_def router_add_route_def)
  with failed have third: "init (Some []) ?args = Inl (AssertionError ''docs_url should start with /'')"
    by simp
  from setup_separator_checks [of ?a2 ?args "[]"] t2
  have second: "setup_app ?a2 = Inr ?a2"
    by blast
  from t1 b1 first t2 b2 second third show ?thesis
    by blast
qed

lemma hidden_extension_refl: "hidden_extension a a"
  by (simp add: hidden_extension_def)

lemma hidden_extension_trans:
  assumes "hidden_extension a b" and "hidden_extension b c"
  shows "hidden_extension a c"
proof -
  let ?ok = "\<lambda>r. \<not> include_in_schema r
     \<and> endpoint r \<in> {ServeOpenapi, SwaggerUiHtml, SwaggerUiOauth2RedirectHtml, RedocHtml}"
  from assms(1) obtain n1 where n1: "routes (router b) = routes (router a) @ n1"
    "\<forall>r \<in> set n1. ?ok r"
    unfolding hidden_extension_def by blast
  from assms(2) obtain n2 where n2: "routes (router c) = routes (router b) @ n2"
    "\<forall>r \<in> set n2. ?ok r"
    unfolding hidden_extension_def by blast
  have "routes (router c) = routes (router a) @ (n1 @ n2)"
    using n1(1) n2(1) by simp
  moreover have "\<forall>r \<in> set (n1 @ n2). ?ok r"
    using n1(2) n2(2) by auto
  ultimately show ?thesis
    unfolding hidden_extension_def by blast
qed

lemma hidden_extension_add_route:
  assumes "e \<in> {ServeOpenapi, SwaggerUiHtml, SwaggerUiOauth2RedirectHtml, RedocHtml}"
  shows "hidden_extension a (add_route p e ms n False a)"
  unfolding hidden_extension_def
  using assms by (intro exI [of _ "[\<lparr>path = p, endpoint = e, methods = ms, name = n,
      include_in_schema = False\<rparr>]"]) (simp add: add_route_routes)

lemma setup_openapi_hidden: "hidden_extension a (state_of (setup_openapi a))"
  by (simp add: setup_openapi_def hidden_extension_refl hidden_extension_add_route
      split: option.splits)

lemma setup_oauth2_redirect_hidden: "hidden_extension a (state_of (setup_oauth2_redirect a))"
  by (simp add: setup_oauth2_redirect_def hidden_extension_refl hidden_extension_add_route
      split: option.splits)

lemma setup_redoc_hidden: "hidden_extension a (state_of (setup_redoc a))"
  by (simp add: setup_redoc_def hidden_extension_refl hidden_extension_add_route
      split: option.splits)

lemma setup_docs_hidden: "hidden_extension a (state_of (setup_docs a))"
proof (cases "docs_url a")
  case None
  then show ?thesis by (simp add: setup_docs_def hidden_extension_refl)
next
  case (Some d)
  let ?a1 = "add_route d SwaggerUiHtml None None False a"
  have "hidden_extension a (state_of (setup_oauth2_redirect ?a1))"
    by (rule hidden_extension_trans [OF hidden_extension_add_route setup_oauth2_redirect_hidden])
       simp
  with Some show ?thesis
    by (simp add: setup_docs_def hidden_extension_refl)
qed

lemma state_of_then_do:
  "state_of (then_do r f) = (case r of Inl x \<Rightarrow> state_of r | Inr a \<Rightarrow> state_of (f a))"
  by (cases r) (simp_all add: then_do_def)

lemma setup_app_hidden: "hidden_extension a (state_of (setup_app a))"
proof (cases "setup_openapi a")
  case (Inl x)
  with setup_openapi_hidden [of a] show ?thesis
    by (simp add: setup_app_def state_of_then_do)
next
  case (Inr a1)
  with setup_openapi_hidden [of a] have h1: "hidden_extension a a1" by simp
  show ?thesis
  proof (cases "setup_docs a1")
    case (Inl y)
    with setup_docs_hidden [of a1] have "hidden_extension a1 (state_of (Inl y))" by simp
    with h1 have "hidden_extension a (state_of (Inl y))"
      by (rule hidden_extension_trans)
    with Inl Inr show ?thesis
      by (simp add: setup_app_def state_of_then_do then_do_def)
  next
    case (Inr a2)
    with setup_docs_hidden [of a1] have "hidden_extension a1 a2" by simp
    with h1 have "hidden_extension a a2"
      by (rule hidden_extension_trans)
    then have "hidden_extension a (state_of (setup_redoc a2))"
      using setup_redoc_hidden by (rule hidden_extension_trans)
    with Inr \<open>setup_openapi a = Inr a1\<close> show ?thesis
      by (simp add: setup_app_def then_do_def)
  qed
qed

text \<open>
  C8. Whatever \<open>setup\<close> registers, up to its return or to the assertion that stops it,
  is appended to the routes already there, is one of the four auxiliary routes, and has
  \<open>include_in_schema=False\<close>.
\<close>

theorem setup_routes_not_in_schema:
  "\<exists>new. routes (router (state_of (setup_app a))) = routes (router a) @ new
      \<and> (\<forall>r \<in> set new. include_in_schema r = False
            \<and> endpoint r \<in> {ServeOpenapi, SwaggerUiHtml, SwaggerUiOauth2RedirectHtml, RedocHtml})"
  using setup_app_hidden [of a] by (simp add: hidden_extension_def)

theorem setup_routes_not_in_schema_witness:
  "map (\<lambda>r. (path r, endpoint r, include_in_schema r))
     (routes (router (state_of (setup_app (init_fields (Some []) default_args)))))
   = [(''/openapi.json'', ServeOpenapi, False), (''/docs'', SwaggerUiHtml, False),
      (''/docs/oauth2-redirect'', SwaggerUiOauth2RedirectHtml, False),
      (''/redoc'', RedocHtml, False)]
   \<and> (\<exists>new. routes (router (state_of (setup_app (init_fields (Some []) default_args))))
              = routes (router (init_fields (Some []) default_args)) @ new
        \<and> (\<forall>r \<in> set new. include_in_schema r = False
              \<and> endpoint r \<in> {ServeOpenapi, SwaggerUiHtml, SwaggerUiOauth2RedirectHtml, RedocHtml}))"
proof -
  have "map (\<lambda>r. (path r, endpoint r, include_in_schema r))
     (routes (router (state_of (setup_app (init_fields (Some []) default_args)))))
   = [(''/openapi.json'', ServeOpenapi, False), (''/docs'', SwaggerUiHtml, False),
      (''/docs/oauth2-redirect'', SwaggerUiOauth2RedirectHtml, False),
      (''/redoc'', RedocHtml, False)]"
    by (simp add: setup_app_def then_do_def setup_openapi_def setup_docs_def
        setup_oauth2_redirect_def setup_redoc_def add_route_def router_add_route_def
        init_fields_def default_args_def)
  with setup_routes_not_in_schema [of "init_fields (Some []) default_args"] show ?thesis
    by simp
qed

text \<open>
  C9. With \<open>openapi_url=None\<close>, \<open>setup\<close> returns the application as it found it: no
  route is registered and no path is checked, whatever \<open>docs_url\<close>, \<open>redoc_url\<close> and
  \<open>swagger_ui_oauth2_redirect_url\<close> are.
\<close>

theorem setup_without_openapi_url:
  assumes "openapi_url a = None"
  shows "setup_app a = Inr a"
  using assms
  by (simp add: setup_app_def then_do_def setup_openapi_def setup_docs_def setup_redoc_def
      split: option.splits)

theorem setup_without_openapi_url_witness:
  "openapi_url (init_fields (Some [])
      (default_args\<lparr>arg_openapi_url := None, arg_docs_url := Some ''docs'',
         arg_redoc_url := Some ''redoc'',
         arg_swagger_ui_oauth2_redirect_url := Some ''oauth2-redirect''\<rparr>)) = None
   \<and> setup_app (init_fields (Some [])
      (default_args\<lparr>arg_openapi_url := None, arg_docs_url := Some ''docs'',
         arg_redoc_url := Some ''redoc'',
         arg_swagger_ui_oauth2_redirect_url := Some ''oauth2-redirect''\<rparr>))
     = Inr (init_fields (Some [])
      (default_args\<lparr>arg_openapi_url := None, arg_docs_url := Some ''docs'',
         arg_redoc_url := Some ''redoc'',
         arg_swagger_ui_oauth2_redirect_url := Some ''oauth2-redirect''\<rparr>))
   \<and> routes (router (init_fields (Some [])
      (default_args\<lparr>arg_openapi_url := None, arg_docs_url := Some ''docs'',
         arg_redoc_url := Some ''redoc'',
         arg_swagger_ui_oauth2_redirect_url := Some ''oauth2-redirect''\<rparr>))) = []"
proof -
  let ?a = "init_fields (Some [])
      (default_args\<lparr>arg_openapi_url := None, arg_docs_url := Some ''docs'',
         arg_redoc_url := Some ''redoc'',
         arg_swagger_ui_oauth2_redirect_url := Some ''oauth2-redirect''\<rparr>)"
  have none: "openapi_url ?a = None"
    by (simp add: init_fields_def)
  have "routes (router ?a) = []"
    by (simp add: init_fields_def default_args_def)
  with none setup_without_openapi_url [OF none] show ?thesis
    by simp
qed

section \<open>The error boundary\<close>

text \<open>
  C7. The application has its handler map assigned, \<open>debug\<close> off, and as its stack the
  chain built from its present state. If what lies under the error boundary raises a
  failure for which the map has no handler, the entry point returns one response, the
  generic internal-error response, which does not depend on the failure, and the failure
  is reported to the host once.
\<close>

theorem undeclared_failure_generic_response:
  assumes handlers: "exception_handlers a = Some hm"
    and nodebug: "\<not> debug a"
    and built: "middleware_stack a = Some c" "build_middleware_stack a = Inr c"
    and raised: "run e (foldr Wrap (user_middleware a) RouterLink)
                   (scope(''root_path'' \<mapsto> root_path a)) = (Raised f, [])"
    and undeclared: "lookup_handler hm f = None"
  shows "call (run e) a scope = Inr (Responded generic_error_response, [f])"
proof -
  from handlers built(2)
  have c: "c = ServerErrorMiddleware (foldr Wrap (user_middleware a) RouterLink) (debug a) hm"
    by (simp add: build_middleware_stack_eq)
  have "run e c (scope(''root_path'' \<mapsto> root_path a)) = (Responded generic_error_response, [f])"
    using raised undeclared nodebug by (simp add: c server_error_def)
  with built(1) show ?thesis
    by (simp add: call_def)
qed

theorem undeclared_failure_generic_response_witness:
  "call (run \<lparr>dispatch = (\<lambda>s. Raised \<lparr>kinds = [''KeyError'', ''LookupError''], detail = ''secret''\<rparr>),
              middleware_call = (\<lambda>m inner. inner),
              handler_call = (\<lambda>h s f. Response 200 h)\<rparr>)
     (state_of (add_middleware ''M'' []
        ((init_fields None default_args)\<lparr>exception_handlers := Some [(Status 404, ''not_found'')]\<rparr>)))
     Map.empty
   = Inr (Responded (Response 500 ''Internal Server Error''),
          [\<lparr>kinds = [''KeyError'', ''LookupError''], detail = ''secret''\<rparr>])"
proof -
  let ?f = "\<lparr>kinds = [''KeyError'', ''LookupError''], detail = ''secret''\<rparr>"
  let ?e = "\<lparr>dispatch = (\<lambda>s. Raised ?f), middleware_call = (\<lambda>m inner. inner),
             handler_call = (\<lambda>h s f. Response 200 h)\<rparr>"
  let ?hm = "[(Status 404, ''not_found'')]"
  let ?m = "\<lparr>cls = ''M'', options = []\<rparr>"
  let ?c = "ServerErrorMiddleware (Wrap ?m RouterLink) False ?hm"
  let ?a = "state_of (add_middleware ''M'' []
        ((init_fields None default_args)\<lparr>exception_handlers := Some ?hm\<rparr>))"
  note defs = add_middleware_def build_middleware_stack_def init_fields_def default_args_def
  have handlers: "exception_handlers ?a = Some ?hm"
    by (simp add: defs)
  have nodebug: "\<not> debug ?a"
    by (simp add: defs)
  have built: "middleware_stack ?a = Some ?c" "build_middleware_stack ?a = Inr ?c"
    by (simp_all add: defs)
  have raised: "run ?e (foldr Wrap (user_middleware ?a) RouterLink)
      (Map.empty(''root_path'' \<mapsto> root_path ?a)) = (Raised ?f, [])"
    by (simp add: defs)
  have undeclared: "lookup_handler ?hm ?f = None"
    by (simp add: lookup_handler_def)
  from undeclared_failure_generic_response [OF handlers nodebug built raised undeclared]
  show ?thesis
    by (simp add: generic_error_response_def)
qed

end
